theory Spec2Isabelle
  imports Main "HOL-Library.Word" "HOL-Library.Sublist"
begin

section \<open>The KMS-encrypting key-value store of \<^verbatim>\<open>pkg/kv/awskms/awskms.go\<close>\<close>

text \<open>
  The Go package wraps a \<^verbatim>\<open>kv.Service\<close> (the inner store) and a KMS client. \<^verbatim>\<open>Set\<close>
  encrypts the value with the KMS client and stores the ciphertext; \<^verbatim>\<open>Get\<close> reads the
  ciphertext and decrypts it, trimming white space from the plaintext.

  The inner store and the KMS client are collaborators with state of their own. They are
  modelled as tables of methods over an abstract state, and every function of the package
  is written in state-passing style over a \<open>world\<close> that holds both states.
\<close>

subsection \<open>Bytes and Go strings\<close>

text \<open>
  A Go \<^verbatim>\<open>[]byte\<close> is a list of 8-bit words. A Go \<^verbatim>\<open>string\<close> is a sequence of bytes as
  well, here a \<open>string\<close> (each \<open>char\<close> is one byte). The conversions \<^verbatim>\<open>string(b)\<close> and
  \<^verbatim>\<open>[]byte(s)\<close> copy the bytes one by one.
\<close>

type_synonym byte = "8 word"

definition string_of_bytes :: "byte list \<Rightarrow> string" where
  "string_of_bytes bs = map (\<lambda>b. char_of (unat b)) bs"

definition bytes_of_string :: "string \<Rightarrow> byte list" where
  "bytes_of_string s = map (\<lambda>c. (of_char c :: byte)) s"

subsection \<open>\<^verbatim>\<open>strings.TrimSpace\<close> of the Go standard library\<close>

text \<open>
  \<^verbatim>\<open>strings.TrimSpace(s)\<close> returns \<^verbatim>\<open>s\<close> without its leading and trailing white space, as
  defined by Unicode: the string is read as UTF-8, and a rune is white space when
  \<^verbatim>\<open>unicode.IsSpace\<close> holds of it. The code points below are the \<^verbatim>\<open>White_Space\<close> property
  (\<^verbatim>\<open>'\t', '\n', '\v', '\f', '\r', ' '\<close>, U+0085, U+00A0, U+1680, U+2000 to U+200A,
  U+2028, U+2029, U+202F, U+205F, U+3000). A byte that does not start a well-formed UTF-8
  sequence decodes to U+FFFD, which is not white space; the decoder accepts only the
  shortest encoding of a code point. So a string starts (ends) with a white-space rune
  exactly when the UTF-8 encoding of one of these code points is a prefix (suffix) of it.
\<close>

definition White_Space :: "nat list" where
  "White_Space =
     [0x09, 0x0A, 0x0B, 0x0C, 0x0D, 0x20, 0x85, 0xA0, 0x1680,
      0x2000, 0x2001, 0x2002, 0x2003, 0x2004, 0x2005, 0x2006, 0x2007, 0x2008, 0x2009, 0x200A,
      0x2028, 0x2029, 0x202F, 0x205F, 0x3000]"

definition unicode_IsSpace :: "nat \<Rightarrow> bool" where
  "unicode_IsSpace r = (r \<in> set White_Space)"

text \<open>The UTF-8 encoding of a code point (\<^verbatim>\<open>utf8.AppendRune\<close>), for the Unicode range.\<close>

definition utf8_encode :: "nat \<Rightarrow> string" where
  "utf8_encode r =
     (if r < 0x80 then [char_of r]
      else if r < 0x800 then [char_of (0xC0 + r div 0x40), char_of (0x80 + r mod 0x40)]
      else if r < 0x10000 then
        [char_of (0xE0 + r div 0x1000), char_of (0x80 + (r div 0x40) mod 0x40),
         char_of (0x80 + r mod 0x40)]
      else
        [char_of (0xF0 + r div 0x40000), char_of (0x80 + (r div 0x1000) mod 0x40),
         char_of (0x80 + (r div 0x40) mod 0x40), char_of (0x80 + r mod 0x40)])"

text \<open>
  The encodings of the white-space code points, written out byte by byte; lemma
  \<open>space_encodings_utf8\<close> below checks the table against \<open>utf8_encode\<close>.
\<close>

definition space_encodings :: "string list" where
  "space_encodings =
     [[CHR 0x09], [CHR 0x0A], [CHR 0x0B], [CHR 0x0C], [CHR 0x0D], [CHR 0x20],
      [CHR 0xC2, CHR 0x85], [CHR 0xC2, CHR 0xA0],
      [CHR 0xE1, CHR 0x9A, CHR 0x80],
      [CHR 0xE2, CHR 0x80, CHR 0x80], [CHR 0xE2, CHR 0x80, CHR 0x81],
      [CHR 0xE2, CHR 0x80, CHR 0x82], [CHR 0xE2, CHR 0x80, CHR 0x83],
      [CHR 0xE2, CHR 0x80, CHR 0x84], [CHR 0xE2, CHR 0x80, CHR 0x85],
      [CHR 0xE2, CHR 0x80, CHR 0x86], [CHR 0xE2, CHR 0x80, CHR 0x87],
      [CHR 0xE2, CHR 0x80, CHR 0x88], [CHR 0xE2, CHR 0x80, CHR 0x89],
      [CHR 0xE2, CHR 0x80, CHR 0x8A],
      [CHR 0xE2, CHR 0x80, CHR 0xA8], [CHR 0xE2, CHR 0x80, CHR 0xA9],
      [CHR 0xE2, CHR 0x80, CHR 0xAF], [CHR 0xE2, CHR 0x81, CHR 0x9F],
      [CHR 0xE3, CHR 0x80, CHR 0x80]]"

text \<open>The white-space rune a string starts with, as its encoding, if there is one.\<close>

definition leading_space :: "string \<Rightarrow> string option" where
  "leading_space s = find (\<lambda>e. prefix e s) space_encodings"

definition trailing_space :: "string \<Rightarrow> string option" where
  "trailing_space s = find (\<lambda>e. suffix e s) space_encodings"

text \<open>
  \<^verbatim>\<open>TrimLeftFunc(s, unicode.IsSpace)\<close> drops runes from the front while they are white
  space, and \<^verbatim>\<open>TrimRightFunc(s, unicode.IsSpace)\<close> from the back; \<^verbatim>\<open>TrimSpace\<close> does the one
  and then the other. The fuel argument is the number of bytes of the string, which bounds
  the number of its runes (lemmas \<open>trim_left_done\<close> and \<open>trim_right_done\<close> below).
\<close>

fun trim_left :: "nat \<Rightarrow> string \<Rightarrow> string" where
  "trim_left 0 s = s"
| "trim_left (Suc n) s =
     (case leading_space s of
        None \<Rightarrow> s
      | Some e \<Rightarrow> trim_left n (drop (length e) s))"

fun trim_right :: "nat \<Rightarrow> string \<Rightarrow> string" where
  "trim_right 0 s = s"
| "trim_right (Suc n) s =
     (case trailing_space s of
        None \<Rightarrow> s
      | Some e \<Rightarrow> trim_right n (take (length s - length e) s))"

definition strings_TrimSpace :: "string \<Rightarrow> string" where
  "strings_TrimSpace s =
     (let l = trim_left (length s) s in trim_right (length l) l)"

subsection \<open>Errors\<close>

text \<open>
  A Go \<^verbatim>\<open>error\<close> is either a value handed back by a collaborator, which the package
  never looks into, or a value built by the \<^verbatim>\<open>emperror.dev/errors\<close> library:
  \<^verbatim>\<open>errors.Errorf\<close> makes a new error from a formatted message, and \<^verbatim>\<open>errors.WrapIf(err, msg)\<close>
  annotates a non-nil \<^verbatim>\<open>err\<close> with \<^verbatim>\<open>msg\<close> (the package calls it on non-nil errors only).
  Stack traces are left out. The nil error is the absence of an \<open>error\<close>: a result that
  may fail is a sum with the error on the left, and a bare \<^verbatim>\<open>error\<close> result is an option.
\<close>

datatype 'e error =
    Opaque 'e
  | Errorf string
  | WrapIf "'e error" string

subsection \<open>The requests and responses of the KMS client\<close>

text \<open>
  The fields of \<^verbatim>\<open>kms.DecryptInput\<close>, \<^verbatim>\<open>kms.EncryptInput\<close>, \<^verbatim>\<open>kms.DecryptOutput\<close> and
  \<^verbatim>\<open>kms.EncryptOutput\<close> that the package sets or reads; the others keep their zero value.
  A \<^verbatim>\<open>*string\<close> is a \<open>string option\<close>, with \<open>None\<close> for the nil pointer.
\<close>

record DecryptInput =
  di_CiphertextBlob :: "byte list"
  di_EncryptionContext :: "string \<rightharpoonup> string option"
  di_GrantTokens :: "string option list"

record DecryptOutput =
  do_Plaintext :: "byte list"

record EncryptInput =
  ei_KeyId :: "string option"
  ei_Plaintext :: "byte list"
  ei_EncryptionContext :: "string \<rightharpoonup> string option"
  ei_GrantTokens :: "string option list"

record EncryptOutput =
  eo_CiphertextBlob :: "byte list"

text \<open>\<^verbatim>\<open>aws.String\<close> and \<^verbatim>\<open>aws.StringMap\<close> turn values into pointers to them.\<close>

definition aws_String :: "string \<Rightarrow> string option" where
  "aws_String v = Some v"

definition aws_StringMap :: "(string \<rightharpoonup> string) \<Rightarrow> (string \<rightharpoonup> string option)" where
  "aws_StringMap src = (\<lambda>k. map_option Some (src k))"

subsection \<open>The collaborators and the world\<close>

text \<open>
  The interface \<^verbatim>\<open>kv.Service\<close> has the methods \<^verbatim>\<open>Get(key) ([]byte, error)\<close> and
  \<^verbatim>\<open>Set(key, val) error\<close>; an implementation is any pair of functions over a state \<open>'s\<close> of
  its own. The KMS client offers \<^verbatim>\<open>Decrypt\<close> and \<^verbatim>\<open>Encrypt\<close> over the state \<open>'k\<close> of the
  remote service.
\<close>

record ('s, 'e) kv_Service =
  kv_Get :: "string \<Rightarrow> 's \<Rightarrow> ('e error + byte list) \<times> 's"
  kv_Set :: "string \<Rightarrow> byte list \<Rightarrow> 's \<Rightarrow> 'e error option \<times> 's"

record ('k, 'e) kms_KMS =
  kms_Decrypt :: "DecryptInput \<Rightarrow> 'k \<Rightarrow> ('e error + DecryptOutput) \<times> 'k"
  kms_Encrypt :: "EncryptInput \<Rightarrow> 'k \<Rightarrow> ('e error + EncryptOutput) \<times> 'k"

text \<open>
  The world holds the state of the inner store, the state of the remote service, and a
  log of the calls made to the two collaborators, in order. The log is not in the Go
  code: it is there to state which calls a function makes.
\<close>

datatype call =
    Store_Get string
  | Store_Set string "byte list"
  | KMS_Decrypt DecryptInput
  | KMS_Encrypt EncryptInput

record ('s, 'k) world =
  store_state :: 's
  kms_state :: 'k
  calls :: "call list"

text \<open>The calls made on the way from world \<open>w\<close> to world \<open>w'\<close>.\<close>

definition issued :: "('s, 'k) world \<Rightarrow> ('s, 'k) world \<Rightarrow> call list" where
  "issued w w' = drop (length (calls w)) (calls w')"

subsection \<open>The package\<close>

definition SseAES256 :: string where
  "SseAES256 = ''AES256''"

definition SseKMS :: string where
  "SseKMS = ''aws:kms''"

record ('s, 'k, 'e) awsKMS =
  store :: "('s, 'e) kv_Service"
  kmsService :: "('k, 'e) kms_KMS"
  kmsID :: string
  encryptionContext :: "string \<rightharpoonup> string option"

text \<open>
  \<^verbatim>\<open>NewWithSession(sess, store, kmsID, encryptionContext)\<close>. The client constructor
  \<^verbatim>\<open>kms.New\<close> of the AWS SDK is a parameter; it returns a client and no error. The message
  of the error is the format \<^verbatim>\<open>"invalid kmsID specified: '%s'"\<close> with \<^verbatim>\<open>kmsID\<close> filled in
  (\<open>CHR 0x27\<close> is the single quote). A returned error comes with the nil service.
\<close>

definition NewWithSession ::
  "('sess \<Rightarrow> ('k, 'e) kms_KMS) \<Rightarrow> 'sess \<Rightarrow> ('s, 'e) kv_Service \<Rightarrow> string \<Rightarrow> (string \<rightharpoonup> string)
     \<Rightarrow> 'e error + ('s, 'k, 'e) awsKMS" where
  "NewWithSession kms_New sess store' kmsID' encryptionContext' =
     (if kmsID' = []
      then Inl (Errorf (''invalid kmsID specified: '' @ [CHR 0x27] @ kmsID' @ [CHR 0x27]))
      else Inr \<lparr>store = store',
                kmsService = kms_New sess,
                kmsID = kmsID',
                encryptionContext = aws_StringMap encryptionContext'\<rparr>)"

text \<open>
  \<^verbatim>\<open>New(store, region, kmsID, encryptionContext)\<close> makes a session for the region with the
  AWS SDK and hands it to \<^verbatim>\<open>NewWithSession\<close>; what it returns is what \<^verbatim>\<open>NewWithSession\<close>
  returns for that session, so it has no definition of its own here.

  The request literals of \<^verbatim>\<open>decrypt\<close> and \<^verbatim>\<open>encrypt\<close>. A call of the client returns an
  error or, with the nil error, an output.
\<close>

definition decrypt_input :: "('s, 'k, 'e) awsKMS \<Rightarrow> byte list \<Rightarrow> DecryptInput" where
  "decrypt_input a cipherText =
     \<lparr>di_CiphertextBlob = cipherText,
      di_EncryptionContext = encryptionContext a,
      di_GrantTokens = []\<rparr>"

definition encrypt_input :: "('s, 'k, 'e) awsKMS \<Rightarrow> byte list \<Rightarrow> EncryptInput" where
  "encrypt_input a plainText =
     \<lparr>ei_KeyId = aws_String (kmsID a),
      ei_Plaintext = plainText,
      ei_EncryptionContext = encryptionContext a,
      ei_GrantTokens = []\<rparr>"

definition awsKMS_decrypt ::
  "('s, 'k, 'e) awsKMS \<Rightarrow> byte list \<Rightarrow> ('s, 'k) world \<Rightarrow> ('e error + byte list) \<times> ('s, 'k) world" where
  "awsKMS_decrypt a cipherText w =
     (case kms_Decrypt (kmsService a) (decrypt_input a cipherText) (kms_state w) of
        (res, k') \<Rightarrow>
          let w' = w\<lparr>kms_state := k', calls := calls w @ [KMS_Decrypt (decrypt_input a cipherText)]\<rparr>
          in (case res of
                Inl err \<Rightarrow> (Inl (WrapIf err ''failed to decrypt with KMS client''), w')
              | Inr out \<Rightarrow>
                  let trimKey = strings_TrimSpace (string_of_bytes (do_Plaintext out))
                  in (Inr (bytes_of_string trimKey), w')))"

definition awsKMS_Get ::
  "('s, 'k, 'e) awsKMS \<Rightarrow> string \<Rightarrow> ('s, 'k) world \<Rightarrow> ('e error + byte list) \<times> ('s, 'k) world" where
  "awsKMS_Get a key w =
     (case kv_Get (store a) key (store_state w) of
        (res, s') \<Rightarrow>
          let w' = w\<lparr>store_state := s', calls := calls w @ [Store_Get key]\<rparr>
          in (case res of
                Inl err \<Rightarrow> (Inl (WrapIf err ''failed to get data for KMS client''), w')
              | Inr cipherText \<Rightarrow> awsKMS_decrypt a cipherText w'))"

definition awsKMS_encrypt ::
  "('s, 'k, 'e) awsKMS \<Rightarrow> byte list \<Rightarrow> ('s, 'k) world \<Rightarrow> ('e error + byte list) \<times> ('s, 'k) world" where
  "awsKMS_encrypt a plainText w =
     (case kms_Encrypt (kmsService a) (encrypt_input a plainText) (kms_state w) of
        (res, k') \<Rightarrow>
          let w' = w\<lparr>kms_state := k', calls := calls w @ [KMS_Encrypt (encrypt_input a plainText)]\<rparr>
          in (case res of
                Inl err \<Rightarrow> (Inl (WrapIf err ''failed to encrypt with KMS client''), w')
              | Inr out \<Rightarrow> (Inr (eo_CiphertextBlob out), w')))"

definition awsKMS_Set ::
  "('s, 'k, 'e) awsKMS \<Rightarrow> string \<Rightarrow> byte list \<Rightarrow> ('s, 'k) world \<Rightarrow> 'e error option \<times> ('s, 'k) world" where
  "awsKMS_Set a key val w =
     (case awsKMS_encrypt a val w of
        (Inl err, w') \<Rightarrow> (Some err, w')
      | (Inr cipherText, w') \<Rightarrow>
          (case kv_Set (store a) key cipherText (store_state w') of
             (res, s') \<Rightarrow>
               (res, w'\<lparr>store_state := s', calls := calls w' @ [Store_Set key cipherText]\<rparr>)))"

subsection \<open>Reliable collaborators\<close>

text \<open>
  The remote service inverts: every encrypt request succeeds, and a decrypt request made
  next with the ciphertext it returned, the same encryption context and the same grant
  tokens succeeds and returns the plaintext that was encrypted.
\<close>

definition kms_inverts :: "('k, 'e) kms_KMS \<Rightarrow> bool" where
  "kms_inverts kms \<longleftrightarrow>
     (\<forall>inp k. \<exists>out k'.
        kms_Encrypt kms inp k = (Inr out, k') \<and>
        (\<exists>out' k''.
           kms_Decrypt kms
             \<lparr>di_CiphertextBlob = eo_CiphertextBlob out,
              di_EncryptionContext = ei_EncryptionContext inp,
              di_GrantTokens = ei_GrantTokens inp\<rparr> k' = (Inr out', k'') \<and>
           do_Plaintext out' = ei_Plaintext inp))"

text \<open>
  The inner store is reliable: every \<^verbatim>\<open>Set\<close> succeeds, and a \<^verbatim>\<open>Get\<close> of the same key made
  next returns the value that was written.
\<close>

definition store_reliable :: "('s, 'e) kv_Service \<Rightarrow> bool" where
  "store_reliable st \<longleftrightarrow>
     (\<forall>key val s. \<exists>s'.
        kv_Set st key val s = (None, s') \<and>
        (\<exists>s''. kv_Get st key s' = (Inr val, s'')))"

subsection \<open>Test doubles\<close>

text \<open>
  An in-memory store, a store that always fails, a fake remote service that reverses the
  bytes to encrypt and to decrypt, and a remote service that always fails. They are the
  concrete inputs at which the theorems below are instantiated.
\<close>

definition mem_store :: "(string \<rightharpoonup> byte list, string) kv_Service" where
  "mem_store =
     \<lparr>kv_Get = (\<lambda>key s. case s key of
                   None \<Rightarrow> (Inl (Opaque ''key not found''), s)
                 | Some v \<Rightarrow> (Inr v, s)),
      kv_Set = (\<lambda>key val s. (None, s(key \<mapsto> val)))\<rparr>"

definition failing_store :: "(string \<rightharpoonup> byte list, string) kv_Service" where
  "failing_store =
     \<lparr>kv_Get = (\<lambda>key s. (Inl (Opaque ''store unavailable''), s)),
      kv_Set = (\<lambda>key val s. (Some (Opaque ''store unavailable''), s))\<rparr>"

definition fake_kms :: "(unit, string) kms_KMS" where
  "fake_kms =
     \<lparr>kms_Decrypt = (\<lambda>inp k. (Inr \<lparr>do_Plaintext = rev (di_CiphertextBlob inp)\<rparr>, k)),
      kms_Encrypt = (\<lambda>inp k. (Inr \<lparr>eo_CiphertextBlob = rev (ei_Plaintext inp)\<rparr>, k))\<rparr>"

definition failing_kms :: "(unit, string) kms_KMS" where
  "failing_kms =
     \<lparr>kms_Decrypt = (\<lambda>inp k. (Inl (Opaque ''access denied''), k)),
      kms_Encrypt = (\<lambda>inp k. (Inl (Opaque ''access denied''), k))\<rparr>"

definition test_context :: "string \<rightharpoonup> string" where
  "test_context = [''purpose'' \<mapsto> ''test'']"

definition test_service :: "(string \<rightharpoonup> byte list, unit, string) awsKMS" where
  "test_service =
     \<lparr>store = mem_store, kmsService = fake_kms,
      kmsID = ''alias/test-key'', encryptionContext = aws_StringMap test_context\<rparr>"

definition no_store_service :: "(string \<rightharpoonup> byte list, unit, string) awsKMS" where
  "no_store_service = test_service\<lparr>store := failing_store\<rparr>"

definition no_kms_service :: "(string \<rightharpoonup> byte list, unit, string) awsKMS" where
  "no_kms_service = test_service\<lparr>kmsService := failing_kms\<rparr>"

definition empty_world :: "(string \<rightharpoonup> byte list, unit) world" where
  "empty_world = \<lparr>store_state = Map.empty, kms_state = (), calls = []\<rparr>"

text \<open>The bytes of \<^verbatim>\<open>"secret "\<close>, with its trailing space, and of \<^verbatim>\<open>"secret"\<close>.\<close>

definition secret_sp :: "byte list" where
  "secret_sp = [0x73, 0x65, 0x63, 0x72, 0x65, 0x74, 0x20]"

definition secret :: "byte list" where
  "secret = [0x73, 0x65, 0x63, 0x72, 0x65, 0x74]"

text \<open>
  A world whose store holds, under the key \<open>''password''\<close>, what the fake remote service
  returns for \<^verbatim>\<open>"secret "\<close>.
\<close>

definition stored_world :: "(string \<rightharpoonup> byte list, unit) world" where
  "stored_world =
     \<lparr>store_state = [''password'' \<mapsto> rev secret_sp], kms_state = (), calls = []\<rparr>"

text \<open>
  A value with every white-space rune in front of and behind a core. The core starts with
  a zero-width space (U+200B, not white space), has a space inside, and ends with the byte
  \<open>0xA0\<close> on its own, which is not the encoding of a rune: none of them may be trimmed.
\<close>

definition all_spaces :: "byte list" where
  "all_spaces =
     [0x09, 0x0A, 0x0B, 0x0C, 0x0D, 0x20,
      0xC2, 0x85, 0xC2, 0xA0,
      0xE1, 0x9A, 0x80,
      0xE2, 0x80, 0x80, 0xE2, 0x80, 0x81, 0xE2, 0x80, 0x82, 0xE2, 0x80, 0x83,
      0xE2, 0x80, 0x84, 0xE2, 0x80, 0x85, 0xE2, 0x80, 0x86, 0xE2, 0x80, 0x87,
      0xE2, 0x80, 0x88, 0xE2, 0x80, 0x89, 0xE2, 0x80, 0x8A,
      0xE2, 0x80, 0xA8, 0xE2, 0x80, 0xA9, 0xE2, 0x80, 0xAF, 0xE2, 0x81, 0x9F,
      0xE3, 0x80, 0x80]"

definition padded_core :: "byte list" where
  "padded_core = [0xE2, 0x80, 0x8B, 0x61, 0x20, 0x62, 0xA0]"

definition padded_value :: "byte list" where
  "padded_value = all_spaces @ padded_core @ all_spaces"

definition padded_world :: "(string \<rightharpoonup> byte list, unit) world" where
  "padded_world =
     \<lparr>store_state = [''password'' \<mapsto> rev padded_value], kms_state = (), calls = []\<rparr>"

text \<open>
  A remote service that answers as the fake one does and keeps, as its state, the requests
  it has received, in order; a service over it; and two worlds in which it has received
  nothing yet, one with an empty store and one with a stored ciphertext.
\<close>

definition recording_kms :: "(call list, string) kms_KMS" where
  "recording_kms =
     \<lparr>kms_Decrypt = (\<lambda>inp k. (Inr \<lparr>do_Plaintext = rev (di_CiphertextBlob inp)\<rparr>,
                              k @ [KMS_Decrypt inp])),
      kms_Encrypt = (\<lambda>inp k. (Inr \<lparr>eo_CiphertextBlob = rev (ei_Plaintext inp)\<rparr>,
                              k @ [KMS_Encrypt inp]))\<rparr>"

definition recording_service :: "(string \<rightharpoonup> byte list, call list, string) awsKMS" where
  "recording_service =
     \<lparr>store = mem_store, kmsService = recording_kms,
      kmsID = ''alias/test-key'', encryptionContext = aws_StringMap test_context\<rparr>"

definition recording_empty_world :: "(string \<rightharpoonup> byte list, call list) world" where
  "recording_empty_world = \<lparr>store_state = Map.empty, kms_state = [], calls = []\<rparr>"

definition recording_stored_world :: "(string \<rightharpoonup> byte list, call list) world" where
  "recording_stored_world =
     \<lparr>store_state = [''password'' \<mapsto> rev secret_sp], kms_state = [], calls = []\<rparr>"

section \<open>The conversions between bytes and strings lose nothing\<close>

lemma byte_of_char_of: "(of_char (char_of (unat b)) :: byte) = b"
proof -
  have "(of_char (char_of (unat b)) :: byte) = of_nat (of_char (char_of (unat b)))"
    by (simp only: of_nat_of_char)
  also have "\<dots> = of_nat (unat b mod 256)" by (simp only: of_char_of)
  also have "\<dots> = b" using unsigned_less [of b, where 'a = nat] by simp
  finally show ?thesis .
qed

lemma char_of_byte: "char_of (unat (of_char c :: byte)) = c"
proof -
  have "unat (of_char c :: byte) = unat (of_nat (of_char c) :: byte)"
    by (simp only: of_nat_of_char)
  also have "\<dots> = of_char c mod 2 ^ LENGTH(8)"
    by (simp only: unat_of_nat)
  also have "\<dots> = of_char c" by simp
  finally show ?thesis by simp
qed

lemma bytes_of_string_inverse: "string_of_bytes (bytes_of_string s) = s"
  by (induction s) (simp_all add: string_of_bytes_def bytes_of_string_def char_of_byte)

lemma string_of_bytes_inverse: "bytes_of_string (string_of_bytes bs) = bs"
  by (induction bs) (simp_all add: string_of_bytes_def bytes_of_string_def byte_of_char_of)

section \<open>Properties of the model of \<^verbatim>\<open>strings.TrimSpace\<close>\<close>

lemma space_encodings_utf8: "map utf8_encode White_Space = space_encodings"
  by (simp add: space_encodings_def White_Space_def utf8_encode_def char_of_eq_iff)

lemma IsSpace_ascii:
  "unicode_IsSpace r \<and> r < 0x80 \<longleftrightarrow> r \<in> {0x09, 0x0A, 0x0B, 0x0C, 0x0D, 0x20}"
  by (auto simp: unicode_IsSpace_def White_Space_def)

lemma leading_spaceD: "leading_space s = Some e \<Longrightarrow> e \<in> set space_encodings \<and> prefix e s"
  unfolding leading_space_def by (auto simp: find_Some_iff)

lemma trailing_spaceD: "trailing_space s = Some e \<Longrightarrow> e \<in> set space_encodings \<and> suffix e s"
  unfolding trailing_space_def by (auto simp: find_Some_iff)

lemma space_encoding_nonempty: "e \<in> set space_encodings \<Longrightarrow> e \<noteq> []"
  by (auto simp: space_encodings_def)

lemma leading_space_None:
  "leading_space s = None \<longleftrightarrow> (\<forall>e \<in> set space_encodings. \<not> prefix e s)"
  by (auto simp: leading_space_def find_None_iff)

lemma trailing_space_None:
  "trailing_space s = None \<longleftrightarrow> (\<forall>e \<in> set space_encodings. \<not> suffix e s)"
  by (auto simp: trailing_space_def find_None_iff)

text \<open>The fuel given by \<open>strings_TrimSpace\<close> is enough: no white space is left at either end.\<close>

lemma trim_left_done: "length s \<le> n \<Longrightarrow> leading_space (trim_left n s) = None"
proof (induction n s rule: trim_left.induct)
  case (1 s)
  then show ?case by (simp add: leading_space_def space_encodings_def)
next
  case (2 n s)
  show ?case
  proof (cases "leading_space s")
    case None
    then show ?thesis by simp
  next
    case (Some e)
    then have "e \<noteq> []" "prefix e s"
      using leading_spaceD space_encoding_nonempty by blast+
    then have "length (drop (length e) s) \<le> n"
      using 2(2) by (cases e) (auto simp: prefix_def)
    then show ?thesis using 2(1)[OF Some] Some by simp
  qed
qed

lemma trim_right_done: "length s \<le> n \<Longrightarrow> trailing_space (trim_right n s) = None"
proof (induction n s rule: trim_right.induct)
  case (1 s)
  then show ?case by (simp add: trailing_space_def space_encodings_def)
next
  case (2 n s)
  show ?case
  proof (cases "trailing_space s")
    case None
    then show ?thesis by simp
  next
    case (Some e)
    then have "e \<noteq> []" "suffix e s"
      using trailing_spaceD space_encoding_nonempty by blast+
    then have "length (take (length s - length e) s) \<le> n"
      using 2(2) by (cases e) (auto simp: suffix_def)
    then show ?thesis using 2(1)[OF Some] Some by simp
  qed
qed

lemma trim_right_prefix: "prefix (trim_right n s) s"
proof (induction n s rule: trim_right.induct)
  case (1 s)
  show ?case by simp
next
  case (2 n s)
  show ?case
  proof (cases "trailing_space s")
    case None
    then show ?thesis by simp
  next
    case (Some e)
    have "prefix (take (length s - length e) s) s" by (rule take_is_prefix)
    with 2[OF Some] Some show ?thesis by (auto intro: prefix_order.trans)
  qed
qed

lemma trim_left_suffix: "suffix (trim_left n s) s"
proof (induction n s rule: trim_left.induct)
  case (1 s)
  show ?case by simp
next
  case (2 n s)
  show ?case
  proof (cases "leading_space s")
    case None
    then show ?thesis by simp
  next
    case (Some e)
    have "suffix (drop (length e) s) s" by (rule suffix_drop)
    with 2[OF Some] Some show ?thesis by (auto intro: suffix_order.trans)
  qed
qed

lemma TrimSpace_trimmed:
  "leading_space (strings_TrimSpace s) = None \<and> trailing_space (strings_TrimSpace s) = None"
proof -
  let ?l = "trim_left (length s) s"
  have l: "leading_space ?l = None" by (simp add: trim_left_done)
  have "prefix (strings_TrimSpace s) ?l"
    by (simp add: strings_TrimSpace_def Let_def trim_right_prefix)
  then have "leading_space (strings_TrimSpace s) = None"
    using l unfolding leading_space_None by (meson prefix_order.trans)
  moreover have "trailing_space (strings_TrimSpace s) = None"
    by (simp add: strings_TrimSpace_def Let_def trim_right_done)
  ultimately show ?thesis by simp
qed

lemma TrimSpace_sublist: "sublist (strings_TrimSpace s) s"
proof -
  have "prefix (strings_TrimSpace s) (trim_left (length s) s)"
    by (simp add: strings_TrimSpace_def Let_def trim_right_prefix)
  moreover have "suffix (trim_left (length s) s) s" by (rule trim_left_suffix)
  ultimately show ?thesis
    by (meson prefix_imp_sublist suffix_imp_sublist sublist_order.order.trans)
qed

lemma TrimSpace_id:
  "leading_space s = None \<Longrightarrow> trailing_space s = None \<Longrightarrow> strings_TrimSpace s = s"
  by (cases s) (simp_all add: strings_TrimSpace_def Let_def)

text \<open>
  What is cut off at either end is white space only: the string is a run of white-space
  runes, the result, and a run of white-space runes.
\<close>

lemma trim_left_decomposition:
  "\<exists>ls. set ls \<subseteq> set space_encodings \<and> s = concat ls @ trim_left n s"
proof (induction n s rule: trim_left.induct)
  case (1 s)
  have "set [] \<subseteq> set space_encodings \<and> s = concat [] @ trim_left 0 s" by simp
  then show ?case by blast
next
  case (2 n s)
  show ?case
  proof (cases "leading_space s")
    case None
    then have "set [] \<subseteq> set space_encodings \<and> s = concat [] @ trim_left (Suc n) s" by simp
    then show ?thesis by blast
  next
    case (Some e)
    then have e: "e \<in> set space_encodings" "prefix e s" using leading_spaceD by blast+
    from 2[OF Some] obtain ls where
      ls: "set ls \<subseteq> set space_encodings"
          "drop (length e) s = concat ls @ trim_left n (drop (length e) s)"
      by blast
    have "s = e @ drop (length e) s" using e(2) by (auto simp: prefix_def)
    then have "s = concat (e # ls) @ trim_left (Suc n) s" using ls(2) Some by simp
    moreover have "set (e # ls) \<subseteq> set space_encodings" using e(1) ls(1) by simp
    ultimately show ?thesis by blast
  qed
qed

lemma trim_right_decomposition:
  "\<exists>ts. set ts \<subseteq> set space_encodings \<and> s = trim_right n s @ concat ts"
proof (induction n s rule: trim_right.induct)
  case (1 s)
  have "set [] \<subseteq> set space_encodings \<and> s = trim_right 0 s @ concat []" by simp
  then show ?case by blast
next
  case (2 n s)
  show ?case
  proof (cases "trailing_space s")
    case None
    then have "set [] \<subseteq> set space_encodings \<and> s = trim_right (Suc n) s @ concat []" by simp
    then show ?thesis by blast
  next
    case (Some e)
    then have e: "e \<in> set space_encodings" "suffix e s" using trailing_spaceD by blast+
    let ?r = "take (length s - length e) s"
    from 2[OF Some] obtain ts where
      ts: "set ts \<subseteq> set space_encodings" "?r = trim_right n ?r @ concat ts"
      by blast
    have A: "trim_right (Suc n) s = trim_right n ?r" using Some by simp
    have B: "concat (ts @ [e]) = concat ts @ e" by simp
    have "s = ?r @ e" using e(2) by (auto simp: suffix_def)
    then have "s = trim_right (Suc n) s @ concat (ts @ [e])"
      unfolding A B using ts(2) by (metis append.assoc)
    moreover have "set (ts @ [e]) \<subseteq> set space_encodings" using e(1) ts(1) by simp
    ultimately show ?thesis by blast
  qed
qed

lemma TrimSpace_decomposition:
  "\<exists>ls ts. set ls \<subseteq> set space_encodings \<and> set ts \<subseteq> set space_encodings
     \<and> s = concat ls @ strings_TrimSpace s @ concat ts"
proof -
  let ?l = "trim_left (length s) s"
  obtain ls where ls: "set ls \<subseteq> set space_encodings" "s = concat ls @ ?l"
    using trim_left_decomposition by blast
  obtain ts where
    ts: "set ts \<subseteq> set space_encodings" "?l = trim_right (length ?l) ?l @ concat ts"
    using trim_right_decomposition by blast
  have "s = concat ls @ strings_TrimSpace s @ concat ts"
    using ls(2) ts(2) by (simp add: strings_TrimSpace_def Let_def)
  with ls(1) ts(1) show ?thesis by blast
qed

text \<open>
  Two runs: \<^verbatim>\<open>"secret "\<close> loses its trailing space, and a string wrapped in a no-break
  space (U+00A0), an en quad (U+2000), a space and an ideographic space (U+3000) loses
  all four.
\<close>

lemma trim_secret: "bytes_of_string (strings_TrimSpace (string_of_bytes secret_sp)) = secret"
  unfolding secret_sp_def secret_def by code_simp

lemma trim_unicode:
  "strings_TrimSpace
     [CHR 0xC2, CHR 0xA0, CHR ''a'', CHR 0xE2, CHR 0x80, CHR 0x80, CHR 0x20,
      CHR 0xE3, CHR 0x80, CHR 0x80] = ''a''"
  by code_simp

section \<open>One step of each function\<close>

lemma decrypt_Inl:
  "kms_Decrypt (kmsService a) (decrypt_input a ct) (kms_state w) = (Inl err, k') \<Longrightarrow>
   awsKMS_decrypt a ct w =
     (Inl (WrapIf err ''failed to decrypt with KMS client''),
      w\<lparr>kms_state := k', calls := calls w @ [KMS_Decrypt (decrypt_input a ct)]\<rparr>)"
  by (simp add: awsKMS_decrypt_def)

lemma decrypt_Inr:
  "kms_Decrypt (kmsService a) (decrypt_input a ct) (kms_state w) = (Inr out, k') \<Longrightarrow>
   awsKMS_decrypt a ct w =
     (Inr (bytes_of_string (strings_TrimSpace (string_of_bytes (do_Plaintext out)))),
      w\<lparr>kms_state := k', calls := calls w @ [KMS_Decrypt (decrypt_input a ct)]\<rparr>)"
  by (simp add: awsKMS_decrypt_def)

lemma Get_Inl:
  "kv_Get (store a) key (store_state w) = (Inl err, s') \<Longrightarrow>
   awsKMS_Get a key w =
     (Inl (WrapIf err ''failed to get data for KMS client''),
      w\<lparr>store_state := s', calls := calls w @ [Store_Get key]\<rparr>)"
  by (simp add: awsKMS_Get_def)

lemma Get_Inr:
  "kv_Get (store a) key (store_state w) = (Inr ct, s') \<Longrightarrow>
   awsKMS_Get a key w =
     awsKMS_decrypt a ct (w\<lparr>store_state := s', calls := calls w @ [Store_Get key]\<rparr>)"
  by (simp add: awsKMS_Get_def)

lemma encrypt_Inl:
  "kms_Encrypt (kmsService a) (encrypt_input a v) (kms_state w) = (Inl err, k') \<Longrightarrow>
   awsKMS_encrypt a v w =
     (Inl (WrapIf err ''failed to encrypt with KMS client''),
      w\<lparr>kms_state := k', calls := calls w @ [KMS_Encrypt (encrypt_input a v)]\<rparr>)"
  by (simp add: awsKMS_encrypt_def)

lemma encrypt_Inr:
  "kms_Encrypt (kmsService a) (encrypt_input a v) (kms_state w) = (Inr out, k') \<Longrightarrow>
   awsKMS_encrypt a v w =
     (Inr (eo_CiphertextBlob out),
      w\<lparr>kms_state := k', calls := calls w @ [KMS_Encrypt (encrypt_input a v)]\<rparr>)"
  by (simp add: awsKMS_encrypt_def)

lemma Set_Inl:
  "kms_Encrypt (kmsService a) (encrypt_input a v) (kms_state w) = (Inl err, k') \<Longrightarrow>
   awsKMS_Set a key v w =
     (Some (WrapIf err ''failed to encrypt with KMS client''),
      w\<lparr>kms_state := k', calls := calls w @ [KMS_Encrypt (encrypt_input a v)]\<rparr>)"
  by (simp add: awsKMS_Set_def encrypt_Inl)

lemma Set_Inr:
  "kms_Encrypt (kmsService a) (encrypt_input a v) (kms_state w) = (Inr out, k') \<Longrightarrow>
   kv_Set (store a) key (eo_CiphertextBlob out) (store_state w) = (res, s') \<Longrightarrow>
   awsKMS_Set a key v w =
     (res, w\<lparr>store_state := s', kms_state := k',
            calls := calls w @ [KMS_Encrypt (encrypt_input a v),
                                Store_Set key (eo_CiphertextBlob out)]\<rparr>)"
  by (simp add: awsKMS_Set_def encrypt_Inr)

text \<open>The calls each operation makes, in order.\<close>

lemma issued_Get:
  "issued w (snd (awsKMS_Get a key w)) =
     (case fst (kv_Get (store a) key (store_state w)) of
        Inl err \<Rightarrow> [Store_Get key]
      | Inr ct \<Rightarrow> [Store_Get key, KMS_Decrypt (decrypt_input a ct)])"
  by (simp add: awsKMS_Get_def awsKMS_decrypt_def issued_def Let_def
      split: prod.splits sum.splits)

lemma issued_Set:
  "issued w (snd (awsKMS_Set a key val w)) =
     (case fst (kms_Encrypt (kmsService a) (encrypt_input a val) (kms_state w)) of
        Inl err \<Rightarrow> [KMS_Encrypt (encrypt_input a val)]
      | Inr out \<Rightarrow> [KMS_Encrypt (encrypt_input a val), Store_Set key (eo_CiphertextBlob out)])"
  by (simp add: awsKMS_Set_def awsKMS_encrypt_def issued_def Let_def
      split: prod.splits sum.splits)

text \<open>The test doubles: the fake service inverts, the in-memory store is reliable.\<close>

lemma fake_kms_inverts: "kms_inverts fake_kms"
  by (simp add: kms_inverts_def fake_kms_def)

lemma mem_store_reliable: "store_reliable mem_store"
  by (simp add: store_reliable_def mem_store_def)

lemma test_service_encrypt:
  "kms_Encrypt (kmsService test_service) (encrypt_input test_service secret_sp)
     (kms_state empty_world) = (Inr \<lparr>eo_CiphertextBlob = rev secret_sp\<rparr>, ())"
  by (simp add: test_service_def fake_kms_def encrypt_input_def)

lemma test_service_stored:
  "kv_Get (store test_service) ''password'' (store_state stored_world)
     = (Inr (rev secret_sp), store_state stored_world)"
  by (simp add: test_service_def mem_store_def stored_world_def)

lemma no_store_service_Get:
  "kv_Get (store no_store_service) ''password'' (store_state empty_world)
     = (Inl (Opaque ''store unavailable''), Map.empty)"
  by (simp add: no_store_service_def failing_store_def empty_world_def)

lemma no_kms_service_encrypt:
  "kms_Encrypt (kmsService no_kms_service) (encrypt_input no_kms_service secret_sp)
     (kms_state empty_world) = (Inl (Opaque ''access denied''), ())"
  by (simp add: no_kms_service_def failing_kms_def)

text \<open>
  What an operation does to the remote service and to the store, and what it returns, in
  terms of the client and the store called with the request the operation builds.
\<close>

lemma Get_kms_effect:
  assumes "kv_Get (store a) key (store_state w) = (Inr ct, s')"
  shows "kms_state (snd (awsKMS_Get a key w))
           = snd (kms_Decrypt (kmsService a) (decrypt_input a ct) (kms_state w))
         \<and> fst (awsKMS_Get a key w)
           = (case fst (kms_Decrypt (kmsService a) (decrypt_input a ct) (kms_state w)) of
                Inl err \<Rightarrow> Inl (WrapIf err ''failed to decrypt with KMS client'')
              | Inr out \<Rightarrow>
                  Inr (bytes_of_string (strings_TrimSpace (string_of_bytes (do_Plaintext out)))))"
proof -
  obtain res k' where
    d: "kms_Decrypt (kmsService a) (decrypt_input a ct) (kms_state w) = (res, k')"
    by (cases "kms_Decrypt (kmsService a) (decrypt_input a ct) (kms_state w)")
  show ?thesis
  proof (cases res)
    case (Inl err)
    with d show ?thesis
      by (simp add: Get_Inr [OF assms] decrypt_Inl [where err = err and k' = k'])
  next
    case (Inr out)
    with d show ?thesis
      by (simp add: Get_Inr [OF assms] decrypt_Inr [where out = out and k' = k'])
  qed
qed

lemma Set_kms_effect:
  "kms_state (snd (awsKMS_Set a key val w))
     = snd (kms_Encrypt (kmsService a) (encrypt_input a val) (kms_state w))
   \<and> store_state (snd (awsKMS_Set a key val w))
     = (case fst (kms_Encrypt (kmsService a) (encrypt_input a val) (kms_state w)) of
          Inl err \<Rightarrow> store_state w
        | Inr out \<Rightarrow> snd (kv_Set (store a) key (eo_CiphertextBlob out) (store_state w)))"
proof -
  obtain res k' where
    e: "kms_Encrypt (kmsService a) (encrypt_input a val) (kms_state w) = (res, k')"
    by (cases "kms_Encrypt (kmsService a) (encrypt_input a val) (kms_state w)")
  show ?thesis
  proof (cases res)
    case (Inl err)
    with e show ?thesis by (simp add: Set_Inl [where err = err and k' = k'])
  next
    case (Inr out)
    obtain r s' where
      k: "kv_Set (store a) key (eo_CiphertextBlob out) (store_state w) = (r, s')"
      by (cases "kv_Set (store a) key (eo_CiphertextBlob out) (store_state w)")
    from e Inr have e': "kms_Encrypt (kmsService a) (encrypt_input a val) (kms_state w)
                          = (Inr out, k')" by simp
    show ?thesis by (simp add: Set_Inr [OF e' k] e' k)
  qed
qed

text \<open>The padded value is trimmed to its core; the recording service.\<close>

lemma padded_value_string:
  "string_of_bytes padded_value =
     [CHR 0x09, CHR 0x0A, CHR 0x0B, CHR 0x0C, CHR 0x0D, CHR 0x20, CHR 0xC2, CHR 0x85,
      CHR 0xC2, CHR 0xA0, CHR 0xE1, CHR 0x9A, CHR 0x80, CHR 0xE2, CHR 0x80, CHR 0x80,
      CHR 0xE2, CHR 0x80, CHR 0x81, CHR 0xE2, CHR 0x80, CHR 0x82, CHR 0xE2, CHR 0x80,
      CHR 0x83, CHR 0xE2, CHR 0x80, CHR 0x84, CHR 0xE2, CHR 0x80, CHR 0x85, CHR 0xE2,
      CHR 0x80, CHR 0x86, CHR 0xE2, CHR 0x80, CHR 0x87, CHR 0xE2, CHR 0x80, CHR 0x88,
      CHR 0xE2, CHR 0x80, CHR 0x89, CHR 0xE2, CHR 0x80, CHR 0x8A, CHR 0xE2, CHR 0x80,
      CHR 0xA8, CHR 0xE2, CHR 0x80, CHR 0xA9, CHR 0xE2, CHR 0x80, CHR 0xAF, CHR 0xE2,
      CHR 0x81, CHR 0x9F, CHR 0xE3, CHR 0x80, CHR 0x80, CHR 0xE2, CHR 0x80, CHR 0x8B,
      CHR 0x61, CHR 0x20, CHR 0x62, CHR 0xA0, CHR 0x09, CHR 0x0A, CHR 0x0B, CHR 0x0C,
      CHR 0x0D, CHR 0x20, CHR 0xC2, CHR 0x85, CHR 0xC2, CHR 0xA0, CHR 0xE1, CHR 0x9A,
      CHR 0x80, CHR 0xE2, CHR 0x80, CHR 0x80, CHR 0xE2, CHR 0x80, CHR 0x81, CHR 0xE2,
      CHR 0x80, CHR 0x82, CHR 0xE2, CHR 0x80, CHR 0x83, CHR 0xE2, CHR 0x80, CHR 0x84,
      CHR 0xE2, CHR 0x80, CHR 0x85, CHR 0xE2, CHR 0x80, CHR 0x86, CHR 0xE2, CHR 0x80,
      CHR 0x87, CHR 0xE2, CHR 0x80, CHR 0x88, CHR 0xE2, CHR 0x80, CHR 0x89, CHR 0xE2,
      CHR 0x80, CHR 0x8A, CHR 0xE2, CHR 0x80, CHR 0xA8, CHR 0xE2, CHR 0x80, CHR 0xA9,
      CHR 0xE2, CHR 0x80, CHR 0xAF, CHR 0xE2, CHR 0x81, CHR 0x9F, CHR 0xE3, CHR 0x80,
      CHR 0x80]"
  unfolding padded_value_def all_spaces_def padded_core_def
  by (simp add: string_of_bytes_def char_of_eq_iff)

lemma padded_core_string:
  "bytes_of_string [CHR 0xE2, CHR 0x80, CHR 0x8B, CHR 0x61, CHR 0x20, CHR 0x62, CHR 0xA0] = padded_core"
  unfolding padded_core_def by (simp add: bytes_of_string_def)

lemma padded_string_trimmed:
  "strings_TrimSpace
     [CHR 0x09, CHR 0x0A, CHR 0x0B, CHR 0x0C, CHR 0x0D, CHR 0x20, CHR 0xC2, CHR 0x85,
      CHR 0xC2, CHR 0xA0, CHR 0xE1, CHR 0x9A, CHR 0x80, CHR 0xE2, CHR 0x80, CHR 0x80,
      CHR 0xE2, CHR 0x80, CHR 0x81, CHR 0xE2, CHR 0x80, CHR 0x82, CHR 0xE2, CHR 0x80,
      CHR 0x83, CHR 0xE2, CHR 0x80, CHR 0x84, CHR 0xE2, CHR 0x80, CHR 0x85, CHR 0xE2,
      CHR 0x80, CHR 0x86, CHR 0xE2, CHR 0x80, CHR 0x87, CHR 0xE2, CHR 0x80, CHR 0x88,
      CHR 0xE2, CHR 0x80, CHR 0x89, CHR 0xE2, CHR 0x80, CHR 0x8A, CHR 0xE2, CHR 0x80,
      CHR 0xA8, CHR 0xE2, CHR 0x80, CHR 0xA9, CHR 0xE2, CHR 0x80, CHR 0xAF, CHR 0xE2,
      CHR 0x81, CHR 0x9F, CHR 0xE3, CHR 0x80, CHR 0x80, CHR 0xE2, CHR 0x80, CHR 0x8B,
      CHR 0x61, CHR 0x20, CHR 0x62, CHR 0xA0, CHR 0x09, CHR 0x0A, CHR 0x0B, CHR 0x0C,
      CHR 0x0D, CHR 0x20, CHR 0xC2, CHR 0x85, CHR 0xC2, CHR 0xA0, CHR 0xE1, CHR 0x9A,
      CHR 0x80, CHR 0xE2, CHR 0x80, CHR 0x80, CHR 0xE2, CHR 0x80, CHR 0x81, CHR 0xE2,
      CHR 0x80, CHR 0x82, CHR 0xE2, CHR 0x80, CHR 0x83, CHR 0xE2, CHR 0x80, CHR 0x84,
      CHR 0xE2, CHR 0x80, CHR 0x85, CHR 0xE2, CHR 0x80, CHR 0x86, CHR 0xE2, CHR 0x80,
      CHR 0x87, CHR 0xE2, CHR 0x80, CHR 0x88, CHR 0xE2, CHR 0x80, CHR 0x89, CHR 0xE2,
      CHR 0x80, CHR 0x8A, CHR 0xE2, CHR 0x80, CHR 0xA8, CHR 0xE2, CHR 0x80, CHR 0xA9,
      CHR 0xE2, CHR 0x80, CHR 0xAF, CHR 0xE2, CHR 0x81, CHR 0x9F, CHR 0xE3, CHR 0x80,
      CHR 0x80]
   = [CHR 0xE2, CHR 0x80, CHR 0x8B, CHR 0x61, CHR 0x20, CHR 0x62, CHR 0xA0]"
  by code_simp

lemma trim_padded:
  "bytes_of_string (strings_TrimSpace (string_of_bytes padded_value)) = padded_core"
  by (simp only: padded_value_string padded_string_trimmed padded_core_string)

lemma TrimSpace_bytes:
  "\<exists>ls ts. set ls \<subseteq> set space_encodings \<and> set ts \<subseteq> set space_encodings
     \<and> string_of_bytes v
         = concat ls @ string_of_bytes (bytes_of_string (strings_TrimSpace (string_of_bytes v)))
           @ concat ts"
  using TrimSpace_decomposition [of "string_of_bytes v"]
  by (simp only: bytes_of_string_inverse)

lemma recording_service_new:
  "NewWithSession (\<lambda>_. recording_kms) () mem_store ''alias/test-key'' test_context
     = Inr recording_service"
  by (simp add: NewWithSession_def recording_service_def)

lemma recording_stored:
  "kv_Get mem_store ''password'' (store_state recording_stored_world)
     = (Inr (rev secret_sp), store_state recording_stored_world)"
  by (simp add: mem_store_def recording_stored_world_def)

lemma recording_encrypt:
  "kms_Encrypt (kmsService recording_service) (encrypt_input recording_service secret_sp)
      (kms_state recording_empty_world)
     = (Inr \<lparr>eo_CiphertextBlob = rev secret_sp\<rparr>, [KMS_Encrypt (encrypt_input recording_service secret_sp)])"
  by (simp add: recording_service_def recording_kms_def recording_empty_world_def
      encrypt_input_def)

section \<open>The claims\<close>

text \<open>
  C1. For every key \<open>k\<close> and byte sequence \<open>v\<close>: if the remote service inverts and the
  inner store is reliable, then \<^verbatim>\<open>Set(k, v)\<close> succeeds, and the \<^verbatim>\<open>Get(k)\<close> made after it
  succeeds and returns \<open>v\<close> trimmed: the value returned is \<^verbatim>\<open>strings.TrimSpace\<close> of \<open>v\<close>, it
  neither starts nor ends with a white-space rune, and \<open>v\<close> is a run of white-space runes,
  the value returned, and a run of white-space runes.
\<close>

theorem roundtrip_Get_after_Set:
  assumes kms: "kms_inverts (kmsService a)" and st: "store_reliable (store a)"
  shows "\<exists>w1 w2 r.
           awsKMS_Set a k v w = (None, w1)
           \<and> awsKMS_Get a k w1 = (Inr r, w2)
           \<and> r = bytes_of_string (strings_TrimSpace (string_of_bytes v))
           \<and> leading_space (string_of_bytes r) = None
           \<and> trailing_space (string_of_bytes r) = None
           \<and> (\<exists>ls ts. set ls \<subseteq> set space_encodings \<and> set ts \<subseteq> set space_encodings
                 \<and> string_of_bytes v = concat ls @ string_of_bytes r @ concat ts)"
proof -
  from kms obtain out k1 out' k2 where
    enc: "kms_Encrypt (kmsService a) (encrypt_input a v) (kms_state w) = (Inr out, k1)" and
    dec: "kms_Decrypt (kmsService a) (decrypt_input a (eo_CiphertextBlob out)) k1
            = (Inr out', k2)" and
    pt: "do_Plaintext out' = v"
    unfolding kms_inverts_def decrypt_input_def
    by (metis (no_types, lifting) encrypt_input_def EncryptInput.select_convs(2,3,4))
  from st obtain s1 s2 where
    wr: "kv_Set (store a) k (eo_CiphertextBlob out) (store_state w) = (None, s1)" and
    rd: "kv_Get (store a) k s1 = (Inr (eo_CiphertextBlob out), s2)"
    unfolding store_reliable_def by metis
  let ?w1 = "w\<lparr>store_state := s1, kms_state := k1,
               calls := calls w @ [KMS_Encrypt (encrypt_input a v),
                                   Store_Set k (eo_CiphertextBlob out)]\<rparr>"
  let ?r = "bytes_of_string (strings_TrimSpace (string_of_bytes v))"
  have 1: "awsKMS_Set a k v w = (None, ?w1)" by (rule Set_Inr [OF enc wr])
  have "awsKMS_Get a k ?w1 =
          awsKMS_decrypt a (eo_CiphertextBlob out)
            (?w1\<lparr>store_state := s2, calls := calls ?w1 @ [Store_Get k]\<rparr>)"
    by (rule Get_Inr) (simp add: rd)
  also have "fst \<dots> = Inr ?r"
    by (subst decrypt_Inr [where out = out' and k' = k2]) (simp_all add: dec pt)
  finally have 2: "\<exists>w2. awsKMS_Get a k ?w1 = (Inr ?r, w2)" by (metis prod.collapse)
  have 3: "leading_space (string_of_bytes ?r) = None" "trailing_space (string_of_bytes ?r) = None"
    by (simp_all only: bytes_of_string_inverse TrimSpace_trimmed)
  show ?thesis using 1 2 3 TrimSpace_bytes [of v] by blast
qed

theorem roundtrip_Get_after_Set_witness:
  "kms_inverts (kmsService test_service) \<and> store_reliable (store test_service)
   \<and> (\<exists>w1 w2. awsKMS_Set test_service ''password'' padded_value empty_world = (None, w1)
           \<and> awsKMS_Get test_service ''password'' w1 = (Inr padded_core, w2))"
proof -
  have 1: "kms_inverts (kmsService test_service)"
    by (simp add: test_service_def fake_kms_inverts)
  have 2: "store_reliable (store test_service)"
    by (simp add: test_service_def mem_store_reliable)
  show ?thesis
    using 1 2 roundtrip_Get_after_Set [OF 1 2, of "''password''" padded_value empty_world]
    unfolding trim_padded by blast
qed

text \<open>
  C2. For every inner store, encryption context and session: \<^verbatim>\<open>NewWithSession\<close> with the
  empty key identifier returns the error \<^verbatim>\<open>invalid kmsID specified: ''\<close>, which quotes the
  identifier, and no service; with a non-empty key identifier it returns the service made
  of the store, the client of the session, the identifier and the context.
\<close>

theorem NewWithSession_validates_kmsID:
  "NewWithSession kms_New sess st [] ctx
     = Inl (Errorf (''invalid kmsID specified: '' @ [CHR 0x27, CHR 0x27]))
   \<and> (kmsID' \<noteq> [] \<longrightarrow>
        NewWithSession kms_New sess st kmsID' ctx =
          Inr \<lparr>store = st, kmsService = kms_New sess, kmsID = kmsID',
               encryptionContext = aws_StringMap ctx\<rparr>)"
  by (simp add: NewWithSession_def)

theorem NewWithSession_validates_kmsID_witness:
  "''alias/test-key'' \<noteq> []
   \<and> NewWithSession (\<lambda>_. fake_kms) () mem_store ''alias/test-key'' test_context
       = Inr test_service
   \<and> NewWithSession (\<lambda>_. fake_kms) () mem_store [] test_context
       = (Inl (Errorf (''invalid kmsID specified: '' @ [CHR 0x27, CHR 0x27]))
           :: string error + (string \<rightharpoonup> byte list, unit, string) awsKMS)"
  using NewWithSession_validates_kmsID
          [of "\<lambda>_. fake_kms" "()" mem_store test_context "''alias/test-key''"]
  by (simp add: test_service_def)

text \<open>
  C3. For every key and value: if the remote encrypt call fails, then \<^verbatim>\<open>Set\<close> returns an
  error (the failure, wrapped), the state of the inner store is unchanged, and the encrypt
  request is the only call made, so the inner store's \<^verbatim>\<open>Set\<close> is not invoked.
\<close>

theorem Set_encrypt_failure_skips_store:
  assumes "kms_Encrypt (kmsService a) (encrypt_input a val) (kms_state w) = (Inl err, k')"
  shows "fst (awsKMS_Set a key val w) = Some (WrapIf err ''failed to encrypt with KMS client'')
       \<and> store_state (snd (awsKMS_Set a key val w)) = store_state w
       \<and> issued w (snd (awsKMS_Set a key val w)) = [KMS_Encrypt (encrypt_input a val)]"
  by (simp add: Set_Inl [OF assms] issued_def)

theorem Set_encrypt_failure_skips_store_witness:
  "kms_Encrypt (kmsService no_kms_service) (encrypt_input no_kms_service secret_sp)
     (kms_state empty_world) = (Inl (Opaque ''access denied''), ())
   \<and> fst (awsKMS_Set no_kms_service ''password'' secret_sp empty_world)
       = Some (WrapIf (Opaque ''access denied'') ''failed to encrypt with KMS client'')
   \<and> store_state (snd (awsKMS_Set no_kms_service ''password'' secret_sp empty_world))
       = Map.empty
   \<and> issued empty_world (snd (awsKMS_Set no_kms_service ''password'' secret_sp empty_world))
       = [KMS_Encrypt (encrypt_input no_kms_service secret_sp)]"
  using no_kms_service_encrypt
    Set_encrypt_failure_skips_store [OF no_kms_service_encrypt, of "''password''"]
  by (simp add: empty_world_def)

text \<open>
  C4. For every key: if the inner store's \<^verbatim>\<open>Get\<close> fails, then \<^verbatim>\<open>Get\<close> returns the failure,
  wrapped, and no value; the store's \<^verbatim>\<open>Get\<close> is the only call made, and the state of the
  remote service is unchanged. A decrypt request is issued only when the inner store's
  \<^verbatim>\<open>Get\<close> has succeeded, and then for the bytes it returned.
\<close>

theorem Get_store_failure_skips_decrypt:
  "(kv_Get (store a) key (store_state w) = (Inl err, s') \<longrightarrow>
      fst (awsKMS_Get a key w) = Inl (WrapIf err ''failed to get data for KMS client'')
      \<and> issued w (snd (awsKMS_Get a key w)) = [Store_Get key]
      \<and> kms_state (snd (awsKMS_Get a key w)) = kms_state w)
   \<and> (KMS_Decrypt inp \<in> set (issued w (snd (awsKMS_Get a key w))) \<longrightarrow>
        (\<exists>ct s''. kv_Get (store a) key (store_state w) = (Inr ct, s'')
           \<and> inp = decrypt_input a ct))"
proof (intro conjI impI)
  assume h: "kv_Get (store a) key (store_state w) = (Inl err, s')"
  show "fst (awsKMS_Get a key w) = Inl (WrapIf err ''failed to get data for KMS client'')"
    by (simp add: Get_Inl [OF h])
  show "issued w (snd (awsKMS_Get a key w)) = [Store_Get key]"
    by (simp add: Get_Inl [OF h] issued_def)
  show "kms_state (snd (awsKMS_Get a key w)) = kms_state w"
    by (simp add: Get_Inl [OF h])
next
  assume "KMS_Decrypt inp \<in> set (issued w (snd (awsKMS_Get a key w)))"
  then show "\<exists>ct s''. kv_Get (store a) key (store_state w) = (Inr ct, s'')
               \<and> inp = decrypt_input a ct"
    by (cases "kv_Get (store a) key (store_state w)")
       (auto simp: issued_Get split: sum.splits)
qed

theorem Get_store_failure_skips_decrypt_witness:
  "kv_Get (store no_store_service) ''password'' (store_state empty_world)
     = (Inl (Opaque ''store unavailable''), Map.empty)
   \<and> fst (awsKMS_Get no_store_service ''password'' empty_world)
       = Inl (WrapIf (Opaque ''store unavailable'') ''failed to get data for KMS client'')
   \<and> issued empty_world (snd (awsKMS_Get no_store_service ''password'' empty_world))
       = [Store_Get ''password'']
   \<and> KMS_Decrypt (decrypt_input test_service (rev secret_sp))
       \<in> set (issued stored_world (snd (awsKMS_Get test_service ''password'' stored_world)))
   \<and> (\<exists>ct s''. kv_Get (store test_service) ''password'' (store_state stored_world)
                  = (Inr ct, s'')
        \<and> decrypt_input test_service (rev secret_sp) = decrypt_input test_service ct)"
proof -
  have g: "KMS_Decrypt (decrypt_input test_service (rev secret_sp))
       \<in> set (issued stored_world (snd (awsKMS_Get test_service ''password'' stored_world)))"
    by (simp add: issued_Get test_service_stored)
  show ?thesis
    using no_store_service_Get g
      Get_store_failure_skips_decrypt
        [of no_store_service "''password''" empty_world "Opaque ''store unavailable''" Map.empty]
      Get_store_failure_skips_decrypt
        [of test_service "''password''" stored_world _ _
            "decrypt_input test_service (rev secret_sp)"]
    by simp
qed

text \<open>
  C5. For every key: when the inner store's \<^verbatim>\<open>Get\<close> and the remote decrypt both succeed,
  \<^verbatim>\<open>Get\<close> returns the decrypted bytes, read as a string, with leading and trailing white
  space trimmed: the value returned is \<^verbatim>\<open>strings.TrimSpace\<close> of the plaintext, it neither
  starts nor ends with a white-space rune, and the plaintext is a run of white-space
  runes, the value returned, and a run of white-space runes.
\<close>

theorem Get_returns_trimmed_plaintext:
  assumes "kv_Get (store a) key (store_state w) = (Inr cipherText, s')"
    and "kms_Decrypt (kmsService a) (decrypt_input a cipherText) (kms_state w) = (Inr out, k')"
  shows "\<exists>r. fst (awsKMS_Get a key w) = Inr r
           \<and> r = bytes_of_string (strings_TrimSpace (string_of_bytes (do_Plaintext out)))
           \<and> leading_space (string_of_bytes r) = None
           \<and> trailing_space (string_of_bytes r) = None
           \<and> (\<exists>ls ts. set ls \<subseteq> set space_encodings \<and> set ts \<subseteq> set space_encodings
                 \<and> string_of_bytes (do_Plaintext out)
                     = concat ls @ string_of_bytes r @ concat ts)"
proof -
  let ?r = "bytes_of_string (strings_TrimSpace (string_of_bytes (do_Plaintext out)))"
  have 1: "fst (awsKMS_Get a key w) = Inr ?r"
    by (simp add: Get_Inr [OF assms(1)] decrypt_Inr [where out = out and k' = k'] assms(2))
  have 3: "leading_space (string_of_bytes ?r) = None" "trailing_space (string_of_bytes ?r) = None"
    by (simp_all only: bytes_of_string_inverse TrimSpace_trimmed)
  show ?thesis using 1 3 TrimSpace_bytes [of "do_Plaintext out"] by blast
qed

theorem Get_returns_trimmed_plaintext_witness:
  "kv_Get (store test_service) ''password'' (store_state padded_world)
     = (Inr (rev padded_value), store_state padded_world)
   \<and> kms_Decrypt (kmsService test_service) (decrypt_input test_service (rev padded_value))
        (kms_state padded_world) = (Inr \<lparr>do_Plaintext = padded_value\<rparr>, ())
   \<and> fst (awsKMS_Get test_service ''password'' padded_world) = Inr padded_core
   \<and> leading_space (string_of_bytes padded_core) = None
   \<and> trailing_space (string_of_bytes padded_core) = None"
proof -
  have 1: "kv_Get (store test_service) ''password'' (store_state padded_world)
     = (Inr (rev padded_value), store_state padded_world)"
    by (simp add: test_service_def mem_store_def padded_world_def)
  have 2: "kms_Decrypt (kmsService test_service) (decrypt_input test_service (rev padded_value))
        (kms_state padded_world) = (Inr \<lparr>do_Plaintext = padded_value\<rparr>, ())"
    by (simp add: test_service_def fake_kms_def decrypt_input_def)
  have 3: "bytes_of_string (strings_TrimSpace (string_of_bytes (do_Plaintext \<lparr>do_Plaintext = padded_value\<rparr>))) = padded_core"
    by (simp add: trim_padded)
  have 4: "leading_space (string_of_bytes padded_core) = None"
    "trailing_space (string_of_bytes padded_core) = None"
    using Get_returns_trimmed_plaintext [OF 1 2] unfolding 3 by blast+
  show ?thesis
    using 1 2 4 Get_returns_trimmed_plaintext [OF 1 2] unfolding 3 by blast
qed

text \<open>
  C6, as the spec words it, fails: the contexts the code wraps with read
  \<^verbatim>\<open>KMS client\<close> where the spec reads \<^verbatim>\<open>key-management client\<close>. At a failing store, and
  at a failing remote service for decrypt and for encrypt, the error returned is not the
  failure wrapped with the spec's context.
\<close>

theorem failure_contexts_spec_wording_counterexample:
  "fst (awsKMS_Get no_store_service ''password'' empty_world)
     \<noteq> Inl (WrapIf (Opaque ''store unavailable'')
              ''failed to get data for key-management client'')
   \<and> fst (awsKMS_Get no_kms_service ''password'' stored_world)
     \<noteq> Inl (WrapIf (Opaque ''access denied'')
              ''failed to decrypt with key-management client'')
   \<and> fst (awsKMS_Set no_kms_service ''password'' secret_sp empty_world)
     \<noteq> Some (WrapIf (Opaque ''access denied'')
              ''failed to encrypt with key-management client'')"
  by (simp add: awsKMS_Get_def awsKMS_Set_def awsKMS_decrypt_def awsKMS_encrypt_def
      no_store_service_def no_kms_service_def test_service_def failing_store_def
      failing_kms_def mem_store_def empty_world_def stored_world_def)

text \<open>
  C6, amended. For every \<^verbatim>\<open>Get\<close> or \<^verbatim>\<open>Set\<close> that fails at the inner store's \<^verbatim>\<open>Get\<close>, at
  the remote decrypt or at the remote encrypt, the error returned is the underlying
  failure wrapped with the context of that stage: \<^verbatim>\<open>failed to get data for KMS client\<close>,
  \<^verbatim>\<open>failed to decrypt with KMS client\<close>, \<^verbatim>\<open>failed to encrypt with KMS client\<close>.
\<close>

theorem failure_contexts:
  "(kv_Get (store a) key (store_state w) = (Inl err, s') \<longrightarrow>
      fst (awsKMS_Get a key w) = Inl (WrapIf err ''failed to get data for KMS client''))
   \<and> (kv_Get (store b) key2 (store_state w2) = (Inr ct, s2)
        \<and> kms_Decrypt (kmsService b) (decrypt_input b ct) (kms_state w2) = (Inl err2, k2) \<longrightarrow>
      fst (awsKMS_Get b key2 w2) = Inl (WrapIf err2 ''failed to decrypt with KMS client''))
   \<and> (kms_Encrypt (kmsService c) (encrypt_input c val) (kms_state w3) = (Inl err3, k3) \<longrightarrow>
      fst (awsKMS_Set c key3 val w3) = Some (WrapIf err3 ''failed to encrypt with KMS client''))"
proof (intro conjI impI)
  assume "kv_Get (store a) key (store_state w) = (Inl err, s')"
  then show "fst (awsKMS_Get a key w) = Inl (WrapIf err ''failed to get data for KMS client'')"
    by (simp add: Get_Inl)
next
  assume "kv_Get (store b) key2 (store_state w2) = (Inr ct, s2)
        \<and> kms_Decrypt (kmsService b) (decrypt_input b ct) (kms_state w2) = (Inl err2, k2)"
  then show "fst (awsKMS_Get b key2 w2) = Inl (WrapIf err2 ''failed to decrypt with KMS client'')"
    by (simp add: Get_Inr decrypt_Inl [where err = err2 and k' = k2])
next
  assume "kms_Encrypt (kmsService c) (encrypt_input c val) (kms_state w3) = (Inl err3, k3)"
  then show "fst (awsKMS_Set c key3 val w3)
               = Some (WrapIf err3 ''failed to encrypt with KMS client'')"
    by (simp add: Set_Inl)
qed

theorem failure_contexts_witness:
  "kv_Get (store no_store_service) ''password'' (store_state empty_world)
     = (Inl (Opaque ''store unavailable''), Map.empty)
   \<and> fst (awsKMS_Get no_store_service ''password'' empty_world)
       = Inl (WrapIf (Opaque ''store unavailable'') ''failed to get data for KMS client'')
   \<and> kv_Get (store no_kms_service) ''password'' (store_state stored_world)
       = (Inr (rev secret_sp), store_state stored_world)
   \<and> kms_Decrypt (kmsService no_kms_service) (decrypt_input no_kms_service (rev secret_sp))
        (kms_state stored_world) = (Inl (Opaque ''access denied''), ())
   \<and> fst (awsKMS_Get no_kms_service ''password'' stored_world)
       = Inl (WrapIf (Opaque ''access denied'') ''failed to decrypt with KMS client'')
   \<and> kms_Encrypt (kmsService no_kms_service) (encrypt_input no_kms_service secret_sp)
        (kms_state empty_world) = (Inl (Opaque ''access denied''), ())
   \<and> fst (awsKMS_Set no_kms_service ''password'' secret_sp empty_world)
       = Some (WrapIf (Opaque ''access denied'') ''failed to encrypt with KMS client'')"
proof -
  have 2: "kv_Get (store no_kms_service) ''password'' (store_state stored_world)
       = (Inr (rev secret_sp), store_state stored_world)"
    by (simp add: no_kms_service_def test_service_def mem_store_def stored_world_def)
  have 3: "kms_Decrypt (kmsService no_kms_service)
             (decrypt_input no_kms_service (rev secret_sp)) (kms_state stored_world)
           = (Inl (Opaque ''access denied''), ())"
    by (simp add: no_kms_service_def failing_kms_def)
  show ?thesis
    using no_store_service_Get 2 3 no_kms_service_encrypt
      failure_contexts
        [of no_store_service "''password''" empty_world "Opaque ''store unavailable''" Map.empty
            no_kms_service "''password''" stored_world "rev secret_sp" "store_state stored_world"
            "Opaque ''access denied''" "()"
            no_kms_service secret_sp empty_world "Opaque ''access denied''" "()" "''password''"]
    by simp
qed

text \<open>
  C7. For every key and value: when the remote encrypt call succeeds, \<^verbatim>\<open>Set\<close> returns what
  the inner store's \<^verbatim>\<open>Set(key, ciphertext)\<close> returns, be it a failure, which is not
  wrapped, or success.
\<close>

theorem Set_returns_store_result:
  assumes "kms_Encrypt (kmsService a) (encrypt_input a val) (kms_state w) = (Inr out, k')"
  shows "fst (awsKMS_Set a key val w)
           = fst (kv_Set (store a) key (eo_CiphertextBlob out) (store_state w))"
  using Set_Inr [OF assms, of key] by (metis fst_conv prod.collapse)

theorem Set_returns_store_result_witness:
  "kms_Encrypt (kmsService no_store_service) (encrypt_input no_store_service secret_sp)
      (kms_state empty_world) = (Inr \<lparr>eo_CiphertextBlob = rev secret_sp\<rparr>, ())
   \<and> fst (awsKMS_Set no_store_service ''password'' secret_sp empty_world)
       = Some (Opaque ''store unavailable'')
   \<and> kms_Encrypt (kmsService test_service) (encrypt_input test_service secret_sp)
      (kms_state empty_world) = (Inr \<lparr>eo_CiphertextBlob = rev secret_sp\<rparr>, ())
   \<and> fst (awsKMS_Set test_service ''password'' secret_sp empty_world) = None"
proof -
  have 1: "kms_Encrypt (kmsService no_store_service) (encrypt_input no_store_service secret_sp)
      (kms_state empty_world) = (Inr \<lparr>eo_CiphertextBlob = rev secret_sp\<rparr>, ())"
    by (simp add: no_store_service_def test_service_def fake_kms_def encrypt_input_def)
  show ?thesis
    using 1 test_service_encrypt
      Set_returns_store_result [OF 1, of "''password''"]
      Set_returns_store_result [OF test_service_encrypt, of "''password''"]
    by (simp add: no_store_service_def test_service_def failing_store_def mem_store_def)
qed

text \<open>
  C8. For a service made by \<^verbatim>\<open>NewWithSession\<close>: the request that \<^verbatim>\<open>Get\<close> hands to the
  client's \<^verbatim>\<open>Decrypt\<close> after a successful read, and the request that \<^verbatim>\<open>Set\<close> hands to the
  client's \<^verbatim>\<open>Encrypt\<close>, carry the encryption context given at construction, with the same
  keys and the same values, and an empty list of grant tokens; the encrypt request carries
  the key identifier given at construction as well. The state of the remote service after
  the operation, and the result of the operation, are those of the client called with
  exactly that request; and the same holds of every request in the log of calls.
\<close>

theorem requests_carry_configuration:
  assumes "NewWithSession kms_New sess st kmsID' ctx = Inr a"
  shows "(kv_Get st key (store_state w) = (Inr ct, s') \<longrightarrow>
            kms_state (snd (awsKMS_Get a key w))
              = snd (kms_Decrypt (kms_New sess)
                       \<lparr>di_CiphertextBlob = ct,
                        di_EncryptionContext = (\<lambda>k. map_option Some (ctx k)),
                        di_GrantTokens = []\<rparr> (kms_state w))
            \<and> fst (awsKMS_Get a key w)
              = (case fst (kms_Decrypt (kms_New sess)
                       \<lparr>di_CiphertextBlob = ct,
                        di_EncryptionContext = (\<lambda>k. map_option Some (ctx k)),
                        di_GrantTokens = []\<rparr> (kms_state w)) of
                   Inl err \<Rightarrow> Inl (WrapIf err ''failed to decrypt with KMS client'')
                 | Inr out \<Rightarrow>
                     Inr (bytes_of_string
                            (strings_TrimSpace (string_of_bytes (do_Plaintext out))))))
       \<and> kms_state (snd (awsKMS_Set a key2 val w2))
            = snd (kms_Encrypt (kms_New sess)
                     \<lparr>ei_KeyId = Some kmsID', ei_Plaintext = val,
                      ei_EncryptionContext = (\<lambda>k. map_option Some (ctx k)),
                      ei_GrantTokens = []\<rparr> (kms_state w2))
       \<and> store_state (snd (awsKMS_Set a key2 val w2))
            = (case fst (kms_Encrypt (kms_New sess)
                     \<lparr>ei_KeyId = Some kmsID', ei_Plaintext = val,
                      ei_EncryptionContext = (\<lambda>k. map_option Some (ctx k)),
                      ei_GrantTokens = []\<rparr> (kms_state w2)) of
                 Inl err \<Rightarrow> store_state w2
               | Inr out \<Rightarrow> snd (kv_Set st key2 (eo_CiphertextBlob out) (store_state w2)))
       \<and> (\<forall>c \<in> set (issued w (snd (awsKMS_Get a key w)))
               \<union> set (issued w2 (snd (awsKMS_Set a key2 val w2))).
           case c of
             KMS_Decrypt inp \<Rightarrow>
               (\<forall>k. di_EncryptionContext inp k = map_option Some (ctx k))
               \<and> di_GrantTokens inp = []
           | KMS_Encrypt inp \<Rightarrow>
               (\<forall>k. ei_EncryptionContext inp k = map_option Some (ctx k))
               \<and> ei_GrantTokens inp = []
               \<and> ei_KeyId inp = Some kmsID'
           | _ \<Rightarrow> True)"
proof -
  from assms have a: "encryptionContext a = aws_StringMap ctx" "kmsID a = kmsID'"
    "store a = st" "kmsService a = kms_New sess"
    by (auto simp: NewWithSession_def split: if_splits)
  have di: "decrypt_input a ct
              = \<lparr>di_CiphertextBlob = ct,
                 di_EncryptionContext = (\<lambda>k. map_option Some (ctx k)),
                 di_GrantTokens = []\<rparr>" for ct
    by (simp add: decrypt_input_def a aws_StringMap_def)
  have ei: "encrypt_input a val
              = \<lparr>ei_KeyId = Some kmsID', ei_Plaintext = val,
                 ei_EncryptionContext = (\<lambda>k. map_option Some (ctx k)),
                 ei_GrantTokens = []\<rparr>"
    by (simp add: encrypt_input_def a aws_StringMap_def aws_String_def)
  have 1: "kv_Get st key (store_state w) = (Inr ct, s') \<longrightarrow>
            kms_state (snd (awsKMS_Get a key w))
              = snd (kms_Decrypt (kms_New sess) (decrypt_input a ct) (kms_state w))
            \<and> fst (awsKMS_Get a key w)
              = (case fst (kms_Decrypt (kms_New sess) (decrypt_input a ct) (kms_state w)) of
                   Inl err \<Rightarrow> Inl (WrapIf err ''failed to decrypt with KMS client'')
                 | Inr out \<Rightarrow>
                     Inr (bytes_of_string
                            (strings_TrimSpace (string_of_bytes (do_Plaintext out)))))"
    using Get_kms_effect [of a key w ct s'] unfolding a(3,4) by blast
  have 2: "kms_state (snd (awsKMS_Set a key2 val w2))
            = snd (kms_Encrypt (kms_New sess) (encrypt_input a val) (kms_state w2))"
    using Set_kms_effect [of a key2 val w2] unfolding a(3,4) by blast
  have 3: "store_state (snd (awsKMS_Set a key2 val w2))
            = (case fst (kms_Encrypt (kms_New sess) (encrypt_input a val) (kms_state w2)) of
                 Inl err \<Rightarrow> store_state w2
               | Inr out \<Rightarrow> snd (kv_Set st key2 (eo_CiphertextBlob out) (store_state w2)))"
    using Set_kms_effect [of a key2 val w2] unfolding a(3,4) by blast
  have 4: "\<forall>c \<in> set (issued w (snd (awsKMS_Get a key w)))
               \<union> set (issued w2 (snd (awsKMS_Set a key2 val w2))).
           case c of
             KMS_Decrypt inp \<Rightarrow>
               (\<forall>k. di_EncryptionContext inp k = map_option Some (ctx k))
               \<and> di_GrantTokens inp = []
           | KMS_Encrypt inp \<Rightarrow>
               (\<forall>k. ei_EncryptionContext inp k = map_option Some (ctx k))
               \<and> ei_GrantTokens inp = []
               \<and> ei_KeyId inp = Some kmsID'
           | _ \<Rightarrow> True"
    by (auto simp: issued_Get issued_Set di ei split: sum.splits)
  show ?thesis using 1 2 3 4 unfolding di ei by blast
qed

theorem requests_carry_configuration_witness:
  "NewWithSession (\<lambda>_. recording_kms) () mem_store ''alias/test-key'' test_context
     = Inr recording_service
   \<and> kv_Get mem_store ''password'' (store_state recording_stored_world)
       = (Inr (rev secret_sp), store_state recording_stored_world)
   \<and> kms_state (snd (awsKMS_Get recording_service ''password'' recording_stored_world))
       = [KMS_Decrypt \<lparr>di_CiphertextBlob = rev secret_sp,
                       di_EncryptionContext = (\<lambda>k. map_option Some (test_context k)),
                       di_GrantTokens = []\<rparr>]
   \<and> fst (awsKMS_Get recording_service ''password'' recording_stored_world) = Inr secret
   \<and> kms_state (snd (awsKMS_Set recording_service ''password'' secret_sp recording_empty_world))
       = [KMS_Encrypt \<lparr>ei_KeyId = Some ''alias/test-key'', ei_Plaintext = secret_sp,
                       ei_EncryptionContext = (\<lambda>k. map_option Some (test_context k)),
                       ei_GrantTokens = []\<rparr>]
   \<and> store_state (snd (awsKMS_Set recording_service ''password'' secret_sp recording_empty_world))
        ''password'' = Some (rev secret_sp)
   \<and> test_context ''purpose'' = Some ''test''"
proof -
  show ?thesis
    using recording_service_new recording_stored
      requests_carry_configuration [OF recording_service_new,
          of "''password''" recording_stored_world "rev secret_sp"
             "store_state recording_stored_world" "''password''" secret_sp recording_empty_world]
    by (simp add: recording_kms_def recording_stored_world_def recording_empty_world_def
        mem_store_def test_context_def trim_secret)
qed

text \<open>
  C9. The ciphertext passes through as it is. When the remote encrypt call succeeds,
  \<^verbatim>\<open>Set\<close> calls the inner store's \<^verbatim>\<open>Set\<close> with the very bytes the call returned, whatever
  they are: the store is left as that call leaves it, and its result is the result of
  \<^verbatim>\<open>Set\<close>. When the inner store's \<^verbatim>\<open>Get\<close> succeeds, \<^verbatim>\<open>Get\<close> hands the very bytes it returned,
  whatever they are, to the client's \<^verbatim>\<open>Decrypt\<close>: the remote service is left as that call
  leaves it, and the result of \<^verbatim>\<open>Get\<close> is made from what that call returns.
\<close>

theorem ciphertext_verbatim:
  "(kms_Encrypt (kmsService a) (encrypt_input a val) (kms_state w) = (Inr out, k') \<longrightarrow>
      issued w (snd (awsKMS_Set a key val w))
        = [KMS_Encrypt (encrypt_input a val), Store_Set key (eo_CiphertextBlob out)]
      \<and> store_state (snd (awsKMS_Set a key val w))
        = snd (kv_Set (store a) key (eo_CiphertextBlob out) (store_state w))
      \<and> fst (awsKMS_Set a key val w)
        = fst (kv_Set (store a) key (eo_CiphertextBlob out) (store_state w)))
   \<and> (kv_Get (store b) key2 (store_state w2) = (Inr ct, s2) \<longrightarrow>
      issued w2 (snd (awsKMS_Get b key2 w2))
        = [Store_Get key2,
           KMS_Decrypt \<lparr>di_CiphertextBlob = ct, di_EncryptionContext = encryptionContext b,
                        di_GrantTokens = []\<rparr>]
      \<and> kms_state (snd (awsKMS_Get b key2 w2))
        = snd (kms_Decrypt (kmsService b)
                 \<lparr>di_CiphertextBlob = ct, di_EncryptionContext = encryptionContext b,
                  di_GrantTokens = []\<rparr> (kms_state w2))
      \<and> fst (awsKMS_Get b key2 w2)
        = (case fst (kms_Decrypt (kmsService b)
                       \<lparr>di_CiphertextBlob = ct, di_EncryptionContext = encryptionContext b,
                        di_GrantTokens = []\<rparr> (kms_state w2)) of
             Inl err \<Rightarrow> Inl (WrapIf err ''failed to decrypt with KMS client'')
           | Inr out' \<Rightarrow>
               Inr (bytes_of_string
                      (strings_TrimSpace (string_of_bytes (do_Plaintext out'))))))"
proof (intro conjI impI)
  assume h: "kms_Encrypt (kmsService a) (encrypt_input a val) (kms_state w) = (Inr out, k')"
  show "issued w (snd (awsKMS_Set a key val w))
        = [KMS_Encrypt (encrypt_input a val), Store_Set key (eo_CiphertextBlob out)]"
    by (simp add: issued_Set h)
  obtain res s' where
    k: "kv_Set (store a) key (eo_CiphertextBlob out) (store_state w) = (res, s')"
    by (cases "kv_Set (store a) key (eo_CiphertextBlob out) (store_state w)")
  show "store_state (snd (awsKMS_Set a key val w))
        = snd (kv_Set (store a) key (eo_CiphertextBlob out) (store_state w))"
    by (simp add: Set_Inr [OF h k] k)
  show "fst (awsKMS_Set a key val w)
        = fst (kv_Set (store a) key (eo_CiphertextBlob out) (store_state w))"
    by (simp add: Set_Inr [OF h k] k)
next
  assume h: "kv_Get (store b) key2 (store_state w2) = (Inr ct, s2)"
  show "issued w2 (snd (awsKMS_Get b key2 w2))
        = [Store_Get key2,
           KMS_Decrypt \<lparr>di_CiphertextBlob = ct, di_EncryptionContext = encryptionContext b,
                        di_GrantTokens = []\<rparr>]"
    by (simp add: issued_Get h decrypt_input_def)
  show "kms_state (snd (awsKMS_Get b key2 w2))
        = snd (kms_Decrypt (kmsService b)
                 \<lparr>di_CiphertextBlob = ct, di_EncryptionContext = encryptionContext b,
                  di_GrantTokens = []\<rparr> (kms_state w2))"
    using Get_kms_effect [OF h] unfolding decrypt_input_def by blast
  show "fst (awsKMS_Get b key2 w2)
        = (case fst (kms_Decrypt (kmsService b)
                       \<lparr>di_CiphertextBlob = ct, di_EncryptionContext = encryptionContext b,
                        di_GrantTokens = []\<rparr> (kms_state w2)) of
             Inl err \<Rightarrow> Inl (WrapIf err ''failed to decrypt with KMS client'')
           | Inr out' \<Rightarrow>
               Inr (bytes_of_string
                      (strings_TrimSpace (string_of_bytes (do_Plaintext out')))))"
    using Get_kms_effect [OF h] unfolding decrypt_input_def by blast
qed

theorem ciphertext_verbatim_witness:
  "kms_Encrypt (kmsService recording_service) (encrypt_input recording_service secret_sp)
      (kms_state recording_empty_world)
     = (Inr \<lparr>eo_CiphertextBlob = rev secret_sp\<rparr>,
        [KMS_Encrypt (encrypt_input recording_service secret_sp)])
   \<and> issued recording_empty_world
        (snd (awsKMS_Set recording_service ''password'' secret_sp recording_empty_world))
       = [KMS_Encrypt (encrypt_input recording_service secret_sp),
          Store_Set ''password'' (rev secret_sp)]
   \<and> store_state (snd (awsKMS_Set recording_service ''password'' secret_sp recording_empty_world))
        ''password'' = Some (rev secret_sp)
   \<and> fst (awsKMS_Set recording_service ''password'' secret_sp recording_empty_world) = None
   \<and> kv_Get (store recording_service) ''password'' (store_state recording_stored_world)
       = (Inr (rev secret_sp), store_state recording_stored_world)
   \<and> kms_state (snd (awsKMS_Get recording_service ''password'' recording_stored_world))
       = [KMS_Decrypt \<lparr>di_CiphertextBlob = rev secret_sp,
                       di_EncryptionContext = encryptionContext recording_service,
                       di_GrantTokens = []\<rparr>]
   \<and> fst (awsKMS_Get recording_service ''password'' recording_stored_world) = Inr secret"
proof -
  have 2: "kv_Get (store recording_service) ''password'' (store_state recording_stored_world)
       = (Inr (rev secret_sp), store_state recording_stored_world)"
    by (simp add: recording_service_def recording_stored)
  have 3: "kv_Set (store recording_service) ''password'' (rev secret_sp)
             (store_state recording_empty_world) = (None, [''password'' \<mapsto> rev secret_sp])"
    by (simp add: recording_service_def mem_store_def recording_empty_world_def)
  have 4: "kms_Decrypt (kmsService recording_service)
             \<lparr>di_CiphertextBlob = rev secret_sp,
              di_EncryptionContext = encryptionContext recording_service,
              di_GrantTokens = []\<rparr> (kms_state recording_stored_world)
           = (Inr \<lparr>do_Plaintext = secret_sp\<rparr>,
              [KMS_Decrypt \<lparr>di_CiphertextBlob = rev secret_sp,
                       di_EncryptionContext = encryptionContext recording_service,
                       di_GrantTokens = []\<rparr>])"
    by (simp add: recording_service_def recording_kms_def recording_stored_world_def)
  show ?thesis
    using recording_encrypt 2 3 4
      ciphertext_verbatim [of recording_service secret_sp recording_empty_world
             "\<lparr>eo_CiphertextBlob = rev secret_sp\<rparr>"
             "[KMS_Encrypt (encrypt_input recording_service secret_sp)]" "''password''"
             recording_service "''password''" recording_stored_world "rev secret_sp"
             "store_state recording_stored_world"]
    by (simp add: trim_secret)
qed



end
